theory Spec2Isabelle
  imports Main
begin

section \<open>Constants of migrate.py\<close>

definition NAME_MIDONET :: string where
  "NAME_MIDONET = ''legacy''"

definition NAME_OVN :: string where
  "NAME_OVN = ''modern''"

definition CACHE_TIMEOUT :: string where
  "CACHE_TIMEOUT = ''2 minutes''"

definition TAG_LEGACY :: string where
  "TAG_LEGACY = ''legacy-networking''"

section \<open>The cloud: resources and the state the SDK connection talks to\<close>

text \<open>
  The script works on a single OpenStack connection (\<^verbatim>\<open>get_conn()\<close>, cached for the
  process). The connection is modelled by the record \<open>cloud\<close>: what the identity,
  network and compute services hold, as seen with the caller's credentials. Only the
  attributes that migrate.py reads are kept in the resource records.
\<close>

record role =
  role_id :: string
  role_name :: string

record role_assignment =
  ra_user :: string
  ra_project :: string
  ra_role :: string

record project =
  project_id :: string
  project_name :: string
  project_tags :: "string list"

record network =
  network_id :: string
  network_name :: string
  network_project_id :: string
  is_router_external :: bool
  provider_network_type :: "string option"
  network_tags :: "string list"

record port =
  port_ident :: string
  port_name :: string
  device_id :: string
  device_owner :: string

record router =
  router_id :: string
  router_name :: string
  external_gateway_info :: "(string \<times> string) list option"

record floatingip =
  fip_id :: string
  fip_name :: string
  floating_network_id :: string
  port_id :: "string option"

record server =
  server_id :: string
  server_name :: string

record interface =
  iface_port_id :: string
  iface_name :: string
  iface_server_id :: string
  net_id :: string

text \<open>
  \<open>resource\<close> stands for \<^verbatim>\<open>openstack.resource.Resource\<close>: one constructor for each
  SDK class whose instances the script gets hold of. \<open>pyobj\<close> is any Python value
  that can reach a dynamically typed parameter: a resource, or a plain value.
\<close>

datatype resource =
    Network network
  | Router router
  | FloatingIP floatingip
  | Server server
  | Port port
  | Project project
  | Role role
  | ServerInterface interface

datatype pyval = PyNone | PyStr string | PyInt int | PyBool bool

datatype pyobj = Resource resource | Value pyval

fun resource_key :: "resource \<Rightarrow> string" where
  "resource_key (Network _) = ''network''"
| "resource_key (Router _) = ''router''"
| "resource_key (FloatingIP _) = ''floatingip''"
| "resource_key (Server _) = ''server''"
| "resource_key (Port _) = ''port''"
| "resource_key (Project _) = ''project''"
| "resource_key (Role _) = ''role''"
| "resource_key (ServerInterface _) = ''interfaceAttachment''"

fun res_id :: "resource \<Rightarrow> string" where
  "res_id (Network n) = network_id n"
| "res_id (Router r) = router_id r"
| "res_id (FloatingIP f) = fip_id f"
| "res_id (Server s) = server_id s"
| "res_id (Port p) = port_ident p"
| "res_id (Project p) = project_id p"
| "res_id (Role r) = role_id r"
| "res_id (ServerInterface i) = iface_port_id i"

fun res_name :: "resource \<Rightarrow> string" where
  "res_name (Network n) = network_name n"
| "res_name (Router r) = router_name r"
| "res_name (FloatingIP f) = fip_name f"
| "res_name (Server s) = server_name s"
| "res_name (Port p) = port_name p"
| "res_name (Project p) = project_name p"
| "res_name (Role r) = role_name r"
| "res_name (ServerInterface i) = iface_name i"

record cloud =
  current_user_id :: string
  current_project_id :: string
  role_lookup_forbidden :: bool
  cloud_roles :: "role list"
  cloud_role_assignments :: "role_assignment list"
  cloud_projects :: "project list"
  cloud_networks :: "network list"
  cloud_ports :: "port list"
  cloud_routers :: "router list"
  cloud_ips :: "floatingip list"
  cloud_servers :: "server list"
  cloud_interfaces :: "interface list"

section \<open>Exceptions, observable events and programs\<close>

datatype exc =
    ForbiddenException
  | NotFoundException
  | IndexError
  | KeyError string
  | AttributeError string
  | TypeError string
  | ValueError string
  | NotImplementedError

datatype api_call =
    GetRole string
  | ListRoleAssignments string string string
  | GetProject string
  | AddTag string string
  | RemoveTag string string
  | GetNetwork pyobj
  | ListNetworks "bool option" "string option" "string option"
  | ListPorts string string
  | ListRouters
  | ListIps
  | ListServers
  | ListServerInterfaces pyobj

text \<open>
  What a run does is recorded as a list of events, oldest first: \<open>Api\<close> is a request
  to the cloud (a query, or one of the two tag mutations), \<open>Print\<close> a line on standard
  output, \<open>PrintTable\<close> the printing of the PrettyTable (header and rows; its layout
  belongs to the library), and \<open>Call\<close> marks the entry into one of \<^verbatim>\<open>check_sanity\<close>,
  \<^verbatim>\<open>check\<close> and \<^verbatim>\<open>switch\<close>.
\<close>

datatype event =
    Call string
  | Api api_call
  | Print string
  | PrintTable "string list" "string list list"

text \<open>
  A program takes the cloud and returns its outcome (\<open>Inl\<close> an uncaught exception,
  \<open>Inr\<close> the returned value), the cloud afterwards and the events it produced.
\<close>

type_synonym 'a prog = "cloud \<Rightarrow> (exc + 'a) \<times> cloud \<times> event list"

definition result :: "(exc + 'a) \<times> cloud \<times> event list \<Rightarrow> exc + 'a" where
  "result r = fst r"

definition final :: "(exc + 'a) \<times> cloud \<times> event list \<Rightarrow> cloud" where
  "final r = fst (snd r)"

definition events :: "(exc + 'a) \<times> cloud \<times> event list \<Rightarrow> event list" where
  "events r = snd (snd r)"

definition return :: "'a \<Rightarrow> 'a prog" where
  "return x = (\<lambda>c. (Inr x, c, []))"

definition raise :: "exc \<Rightarrow> 'a prog" where
  "raise e = (\<lambda>c. (Inl e, c, []))"

definition bind :: "'a prog \<Rightarrow> ('a \<Rightarrow> 'b prog) \<Rightarrow> 'b prog" where
  "bind m f = (\<lambda>c.
     case m c of
       (Inl e, c', es) \<Rightarrow> (Inl e, c', es)
     | (Inr x, c', es) \<Rightarrow> (case f x c' of (r, c'', es') \<Rightarrow> (r, c'', es @ es')))"

definition emit :: "event \<Rightarrow> unit prog" where
  "emit e = (\<lambda>c. (Inr (), c, [e]))"

definition print :: "string \<Rightarrow> unit prog" where
  "print s = emit (Print s)"

definition read :: "(cloud \<Rightarrow> 'a) \<Rightarrow> 'a prog" where
  "read f = (\<lambda>c. (Inr (f c), c, []))"

definition request :: "api_call \<Rightarrow> (cloud \<Rightarrow> exc + 'a) \<Rightarrow> 'a prog" where
  "request call f = (\<lambda>c. (f c, c, [Api call]))"

text \<open>
  \<^verbatim>\<open>try: ... except E: ...\<close> around a single call: \<open>None\<close> when the call raised \<open>E\<close>
  (the handler runs), the value otherwise; any other exception propagates.
\<close>

definition catch :: "exc \<Rightarrow> 'a prog \<Rightarrow> 'a option prog" where
  "catch handled m = (\<lambda>c.
     case m c of
       (Inl e, c', es) \<Rightarrow> (if e = handled then (Inr None, c', es) else (Inl e, c', es))
     | (Inr x, c', es) \<Rightarrow> (Inr (Some x), c', es))"

fun mapM :: "('a \<Rightarrow> 'b prog) \<Rightarrow> 'a list \<Rightarrow> 'b list prog" where
  "mapM f [] = return []"
| "mapM f (x # xs) = bind (f x) (\<lambda>y. bind (mapM f xs) (\<lambda>ys. return (y # ys)))"

fun printed :: "event list \<Rightarrow> string list" where
  "printed [] = []"
| "printed (Print s # es) = s # printed es"
| "printed (_ # es) = printed es"

fun api_calls :: "event list \<Rightarrow> api_call list" where
  "api_calls [] = []"
| "api_calls (Api a # es) = a # api_calls es"
| "api_calls (_ # es) = api_calls es"

fun is_mutation :: "api_call \<Rightarrow> bool" where
  "is_mutation (AddTag _ _) = True"
| "is_mutation (RemoveTag _ _) = True"
| "is_mutation _ = False"

subsection \<open>Generators and lists\<close>

text \<open>
  The list methods of the SDK proxies (\<^verbatim>\<open>conn.network.networks(...)\<close>,
  \<^verbatim>\<open>ports\<close>, \<^verbatim>\<open>routers\<close>, \<^verbatim>\<open>ips\<close>, \<^verbatim>\<open>conn.compute.servers()\<close>,
  \<^verbatim>\<open>server_interfaces\<close>) return Python generators: nothing is requested when the
  generator is made, the request goes out when it is iterated (by \<^verbatim>\<open>list(...)\<close>, a
  \<^verbatim>\<open>for\<close> loop or a comprehension), and a generator cannot be subscripted. This
  is why \<^verbatim>\<open>check_sanity\<close> and \<^verbatim>\<open>PrettyRouter\<close> wrap them in \<^verbatim>\<open>list(...)\<close>
  before \<^verbatim>\<open>[0]\<close> and \<^verbatim>\<open>len\<close>.
\<close>

datatype 'a generator = Generator api_call "cloud \<Rightarrow> exc + 'a list"

fun py_list :: "'a generator \<Rightarrow> 'a list prog" where
  "py_list (Generator call f) = request call f"

definition generator_getitem :: "'a generator \<Rightarrow> nat \<Rightarrow> 'a prog" where
  "generator_getitem g i = raise (TypeError (CHR 0x27 # ''generator' object is not subscriptable''))"

definition list_getitem :: "'a list \<Rightarrow> nat \<Rightarrow> 'a prog" where
  "list_getitem xs i = (if i < length xs then return (xs ! i) else raise IndexError)"

subsection \<open>Python helpers\<close>

definition upper_char :: "char \<Rightarrow> char" where
  "upper_char ch =
     (let n = (of_char ch :: nat) in if 97 \<le> n \<and> n \<le> 122 then char_of (n - 32) else ch)"

definition lower_char :: "char \<Rightarrow> char" where
  "lower_char ch =
     (let n = (of_char ch :: nat) in if 65 \<le> n \<and> n \<le> 90 then char_of (n + 32) else ch)"

fun capitalize :: "string \<Rightarrow> string" where
  "capitalize [] = []"
| "capitalize (ch # cs) = upper_char ch # map lower_char cs"

fun join :: "string \<Rightarrow> string list \<Rightarrow> string" where
  "join sep [] = []"
| "join sep [x] = x"
| "join sep (x # y # ys) = x @ sep @ join sep (y # ys)"

fun type_repr :: "pyval \<Rightarrow> string" where
  "type_repr PyNone = ''<class 'NoneType'>''"
| "type_repr (PyStr _) = ''<class 'str'>''"
| "type_repr (PyInt _) = ''<class 'int'>''"
| "type_repr (PyBool _) = ''<class 'bool'>''"

definition dict_getitem :: "(string \<times> 'v) list \<Rightarrow> string \<Rightarrow> 'v prog" where
  "dict_getitem d k = (case map_of d k of None \<Rightarrow> raise (KeyError k) | Some v \<Rightarrow> return v)"

definition truthy :: "string option \<Rightarrow> bool" where
  "truthy r = (case r of None \<Rightarrow> False | Some s \<Rightarrow> s \<noteq> [])"

subsection \<open>The requests of the script\<close>

text \<open>
  Each request is answered from the cloud record. A lookup of something that does not
  exist raises the SDK's not-found exception; the role lookup raises
  \<open>ForbiddenException\<close> where policy forbids it. Failures of the transport are
  outside the model.
\<close>

definition get_role :: "string \<Rightarrow> role option prog" where
  "get_role name_or_id = request (GetRole name_or_id) (\<lambda>c.
     if role_lookup_forbidden c then Inl ForbiddenException
     else Inr (find (\<lambda>r. role_id r = name_or_id \<or> role_name r = name_or_id) (cloud_roles c)))"

definition list_role_assignments :: "string \<Rightarrow> string \<Rightarrow> string \<Rightarrow> role_assignment list prog" where
  "list_role_assignments user proj rl = request (ListRoleAssignments user proj rl) (\<lambda>c.
     Inr (filter (\<lambda>a. ra_user a = user \<and> ra_project a = proj \<and> ra_role a = rl)
            (cloud_role_assignments c)))"

definition get_project :: "string \<Rightarrow> project prog" where
  "get_project pid = request (GetProject pid) (\<lambda>c.
     case find (\<lambda>p. project_id p = pid) (cloud_projects c) of
       None \<Rightarrow> Inl NotFoundException
     | Some p \<Rightarrow> Inr p)"

definition get_network :: "pyobj \<Rightarrow> network prog" where
  "get_network ident = request (GetNetwork ident) (\<lambda>c.
     case find (\<lambda>n. Value (PyStr (network_id n)) = ident) (cloud_networks c) of
       None \<Rightarrow> Inl NotFoundException
     | Some n \<Rightarrow> Inr n)"

definition networks :: "bool option \<Rightarrow> string option \<Rightarrow> string option \<Rightarrow> pyobj generator" where
  "networks ext tag proj = Generator (ListNetworks ext tag proj) (\<lambda>c.
     Inr (map (\<lambda>n. Resource (Network n))
           (filter (\<lambda>n. (case ext of None \<Rightarrow> True | Some b \<Rightarrow> is_router_external n = b)
                      \<and> (case tag of None \<Rightarrow> True | Some t \<Rightarrow> t \<in> set (network_tags n))
                      \<and> (case proj of None \<Rightarrow> True | Some p \<Rightarrow> network_project_id n = p))
              (cloud_networks c))))"

definition ports :: "string \<Rightarrow> string \<Rightarrow> port generator" where
  "ports dev owner = Generator (ListPorts dev owner) (\<lambda>c.
     Inr (filter (\<lambda>p. device_id p = dev \<and> device_owner p = owner) (cloud_ports c)))"

definition routers :: "pyobj generator" where
  "routers = Generator ListRouters (\<lambda>c. Inr (map (\<lambda>r. Resource (Router r)) (cloud_routers c)))"

definition ips :: "pyobj generator" where
  "ips = Generator ListIps (\<lambda>c. Inr (map (\<lambda>f. Resource (FloatingIP f)) (cloud_ips c)))"

definition servers :: "pyobj generator" where
  "servers = Generator ListServers (\<lambda>c. Inr (map (\<lambda>s. Resource (Server s)) (cloud_servers c)))"

text \<open>
  \<^verbatim>\<open>server_interfaces(server)\<close> takes a server or its id; a resource stands for
  its own id.
\<close>

fun ident_of :: "pyobj \<Rightarrow> string option" where
  "ident_of (Resource r) = Some (res_id r)"
| "ident_of (Value (PyStr s)) = Some s"
| "ident_of (Value _) = None"

definition server_interfaces :: "pyobj \<Rightarrow> interface generator" where
  "server_interfaces srv = Generator (ListServerInterfaces srv) (\<lambda>c.
     case ident_of srv of
       None \<Rightarrow> Inl NotFoundException
     | Some sid \<Rightarrow>
         (if sid \<in> set (map server_id (cloud_servers c))
          then Inr (filter (\<lambda>i. iface_server_id i = sid) (cloud_interfaces c))
          else Inl NotFoundException))"

text \<open>
  The tags of a project are a list without repetitions in the identity service:
  adding a tag that is there changes nothing, removing a tag that is not there is
  a not-found error.
\<close>

definition set_project_tags :: "string \<Rightarrow> (string list \<Rightarrow> string list) \<Rightarrow> cloud \<Rightarrow> cloud" where
  "set_project_tags pid f c =
     c\<lparr>cloud_projects :=
         map (\<lambda>p. if project_id p = pid then p\<lparr>project_tags := f (project_tags p)\<rparr> else p)
           (cloud_projects c)\<rparr>"

definition add_tag :: "project \<Rightarrow> string \<Rightarrow> unit prog" where
  "add_tag p tag = (\<lambda>c.
     case find (\<lambda>q. project_id q = project_id p) (cloud_projects c) of
       None \<Rightarrow> (Inl NotFoundException, c, [Api (AddTag (project_id p) tag)])
     | Some q \<Rightarrow>
         (Inr (),
          set_project_tags (project_id p) (\<lambda>ts. if tag \<in> set ts then ts else ts @ [tag]) c,
          [Api (AddTag (project_id p) tag)]))"

definition remove_tag :: "project \<Rightarrow> string \<Rightarrow> unit prog" where
  "remove_tag p tag = (\<lambda>c.
     case find (\<lambda>q. project_id q = project_id p) (cloud_projects c) of
       None \<Rightarrow> (Inl NotFoundException, c, [Api (RemoveTag (project_id p) tag)])
     | Some q \<Rightarrow>
         (if tag \<in> set (project_tags q)
          then (Inr (), set_project_tags (project_id p) (removeAll tag) c,
                [Api (RemoveTag (project_id p) tag)])
          else (Inl NotFoundException, c, [Api (RemoveTag (project_id p) tag)])))"

section \<open>Privilege and consistency checks\<close>

definition is_tenant_manager :: "bool prog" where
  "is_tenant_manager =
     bind (catch ForbiddenException (get_role ''TenantManager'')) (\<lambda>caught.
       case caught of
         None \<Rightarrow> return False
       | Some None \<Rightarrow> return False
       | Some (Some r) \<Rightarrow>
           bind (read current_user_id) (\<lambda>user.
           bind (read current_project_id) (\<lambda>proj.
           bind (list_role_assignments user proj (role_id r)) (\<lambda>ra.
           return (ra \<noteq> [])))))"

definition is_legacy_project :: "bool prog" where
  "is_legacy_project =
     bind (read current_project_id) (\<lambda>pid.
     bind (get_project pid) (\<lambda>proj.
     return (TAG_LEGACY \<in> set (project_tags proj))))"

fun is_legacy_network :: "pyobj \<Rightarrow> bool prog" where
  "is_legacy_network (Resource (Network network)) =
     return (provider_network_type network = Some ''midonet'')"
| "is_legacy_network network_or_id =
     bind (get_network network_or_id) (\<lambda>network.
     return (provider_network_type network = Some ''midonet''))"

definition check_sanity :: "bool prog" where
  "check_sanity =
     bind (emit (Call ''check_sanity'')) (\<lambda>_.
     bind is_tenant_manager (\<lambda>tm.
     if \<not> tm then
       bind (print (''You do not have sufficient privileges to migrate the project. ''
                    @ ''You need the 'TenantManager' role on this project'')) (\<lambda>_.
       return False)
     else
       bind (py_list (networks (Some True) (Some ''nectar:floating'') None)) (\<lambda>nets.
       bind (list_getitem nets 0) (\<lambda>network.
       bind (is_legacy_network network) (\<lambda>legacy_net.
       bind is_legacy_project (\<lambda>legacy_proj.
       if legacy_net \<noteq> legacy_proj then
         bind (print (''Project networking may have been recently switched. ''
                      @ ''Please wait for '' @ CACHE_TIMEOUT @ '' and try again.'')) (\<lambda>_.
         return False)
       else return True))))))"

definition check_sync :: "bool prog" where
  "check_sync =
     bind (generator_getitem (networks (Some True) None None) 0) (\<lambda>external_network.
     bind (is_legacy_network external_network) (\<lambda>legacy_net.
     bind is_legacy_project (\<lambda>legacy_proj.
     return (legacy_net = legacy_proj))))"

section \<open>Classification rules\<close>

record pretty =
  pr_obj :: resource
  pr_type :: string
  pr_id :: string
  pr_name :: string
  recommendation :: "string option"

definition header :: "string list" where
  "header = [''Type'', ''ID'', ''Name'', ''Recommendation'']"

text \<open>
  \<^verbatim>\<open>PrettyResource.__init__\<close>; the method \<^verbatim>\<open>_get_recommendation\<close> of the
  class being constructed is the first argument.
\<close>

definition PrettyResource_init :: "(resource \<Rightarrow> string option prog) \<Rightarrow> pyobj \<Rightarrow> pretty prog" where
  "PrettyResource_init get_recommendation obj =
     (case obj of
        Value v \<Rightarrow>
          raise (TypeError (''Expected openstack.resource.Resource, got '' @ type_repr v))
      | Resource r \<Rightarrow>
          bind (get_recommendation r) (\<lambda>rec.
          return \<lparr>pr_obj = r, pr_type = capitalize (resource_key r), pr_id = res_id r,
                  pr_name = res_name r, recommendation = rec\<rparr>))"

definition PrettyResource_get_recommendation :: "resource \<Rightarrow> string option prog" where
  "PrettyResource_get_recommendation obj = raise NotImplementedError"

definition prettyrow :: "pretty \<Rightarrow> string list" where
  "prettyrow p =
     [pr_type p, pr_id p, pr_name p, (case recommendation p of None \<Rightarrow> [] | Some s \<Rightarrow> s)]"

text \<open>Attributes that only some resource classes have.\<close>

fun attr_floating_network_id :: "resource \<Rightarrow> string prog" where
  "attr_floating_network_id (FloatingIP f) = return (floating_network_id f)"
| "attr_floating_network_id _ = raise (AttributeError ''floating_network_id'')"

fun attr_port_id :: "resource \<Rightarrow> string option prog" where
  "attr_port_id (FloatingIP f) = return (port_id f)"
| "attr_port_id (ServerInterface i) = return (Some (iface_port_id i))"
| "attr_port_id _ = raise (AttributeError ''port_id'')"

fun attr_external_gateway_info :: "resource \<Rightarrow> (string \<times> string) list option prog" where
  "attr_external_gateway_info (Router r) = return (external_gateway_info r)"
| "attr_external_gateway_info _ = raise (AttributeError ''external_gateway_info'')"

definition PrettyFIP_get_recommendation :: "resource \<Rightarrow> string option prog" where
  "PrettyFIP_get_recommendation obj =
     bind (attr_floating_network_id obj) (\<lambda>nid.
     bind (is_legacy_network (Value (PyStr nid))) (\<lambda>legacy.
     if legacy then
       bind (attr_port_id obj) (\<lambda>pid.
       if pid = None then return (Some ''Unused, Delete'') else return (Some ''Replace''))
     else return None))"

definition PrettyFIP :: "pyobj \<Rightarrow> pretty prog" where
  "PrettyFIP = PrettyResource_init PrettyFIP_get_recommendation"

definition PrettyNetwork_get_recommendation :: "resource \<Rightarrow> string option prog" where
  "PrettyNetwork_get_recommendation obj =
     bind (is_legacy_network (Resource obj)) (\<lambda>legacy.
     if legacy then return (Some ''Replace'') else return None)"

definition PrettyNetwork :: "pyobj \<Rightarrow> pretty prog" where
  "PrettyNetwork = PrettyResource_init PrettyNetwork_get_recommendation"

definition PrettyRouter_get_recommendation :: "resource \<Rightarrow> string option prog" where
  "PrettyRouter_get_recommendation obj =
     bind (py_list (ports (res_id obj) ''network:router_interface'')) (\<lambda>interfaces.
     if length interfaces = 0 then return (Some ''No networks attached, Delete'')
     else
       bind (attr_external_gateway_info obj) (\<lambda>gw.
       case gw of
         None \<Rightarrow> return None
       | Some info \<Rightarrow>
           bind (dict_getitem info ''network_id'') (\<lambda>nid.
           bind (is_legacy_network (Value (PyStr nid))) (\<lambda>legacy.
           if legacy then return (Some ''Replace'') else return None))))"

definition PrettyRouter :: "pyobj \<Rightarrow> pretty prog" where
  "PrettyRouter = PrettyResource_init PrettyRouter_get_recommendation"

text \<open>The loop of \<^verbatim>\<open>PrettyServer._get_recommendation\<close> over the interfaces.\<close>

fun legacy_networks_loop :: "interface list \<Rightarrow> string list \<Rightarrow> string list prog" where
  "legacy_networks_loop [] legacy_networks = return legacy_networks"
| "legacy_networks_loop (iface # rest) legacy_networks =
     bind (get_network (Value (PyStr (net_id iface)))) (\<lambda>network.
     bind (is_legacy_network (Resource (Network network))) (\<lambda>legacy.
     legacy_networks_loop rest
       (if legacy then legacy_networks @ [network_name network] else legacy_networks)))"

definition PrettyServer_get_recommendation :: "resource \<Rightarrow> string option prog" where
  "PrettyServer_get_recommendation obj =
     bind (py_list (server_interfaces (Resource obj))) (\<lambda>interfaces.
     bind (legacy_networks_loop interfaces []) (\<lambda>legacy_networks.
     if legacy_networks \<noteq> [] then return (Some (''Switch to '' @ NAME_OVN @ '' network''))
     else return None))"

definition PrettyServer :: "pyobj \<Rightarrow> pretty prog" where
  "PrettyServer = PrettyResource_init PrettyServer_get_recommendation"

definition query_map :: "(string \<times> string) list" where
  "query_map =
     [(''floatingip'', ''PrettyFIP''),
      (''network'', ''PrettyNetwork''),
      (''router'', ''PrettyRouter''),
      (''server'', ''PrettyServer'')]"

text \<open>\<^verbatim>\<open>globals()\<close>, as far as the class names of the query map go.\<close>

definition globals :: "(string \<times> (pyobj \<Rightarrow> pretty prog)) list" where
  "globals =
     [(''PrettyFIP'', PrettyFIP),
      (''PrettyNetwork'', PrettyNetwork),
      (''PrettyRouter'', PrettyRouter),
      (''PrettyServer'', PrettyServer)]"

definition resource_to_prettyresource :: "pyobj \<Rightarrow> pretty prog" where
  "resource_to_prettyresource obj =
     (case obj of
        Value v \<Rightarrow>
          raise (TypeError (''Expected openstack.resource.Resource, got '' @ type_repr v))
      | Resource r \<Rightarrow>
          (case map_of query_map (resource_key r) of
             None \<Rightarrow> raise (ValueError (''Unknown resource type '' @ resource_key r))
           | Some cls \<Rightarrow> bind (dict_getitem globals cls) (\<lambda>constructor. constructor obj)))"

definition resources_to_prettyrows :: "pyobj generator \<Rightarrow> bool \<Rightarrow> string list list prog" where
  "resources_to_prettyrows resources all_resources =
     bind (py_list resources) (\<lambda>objs.
     bind (mapM resource_to_prettyresource objs) (\<lambda>prs.
     return (map prettyrow
               (if \<not> all_resources then filter (\<lambda>r. truthy (recommendation r)) prs
                else prs))))"

section \<open>The two operations and the dispatcher\<close>

record check_args =
  all_resources :: bool

record switch_args =
  networking :: string

text \<open>
  The namespace that \<^verbatim>\<open>parser.parse_args()\<close> returns: the sub-command (the
  function stored as \<^verbatim>\<open>args.command\<close>) with its arguments.
\<close>

datatype namespace = CheckNS check_args | SwitchNS switch_args

definition check_summary :: "string \<Rightarrow> nat \<Rightarrow> string prog" where
  "check_summary pname rowcount =
     bind is_legacy_project (\<lambda>legacy.
     if \<not> legacy \<and> rowcount = 0 then
       return (''Congratulations! Your project is already using '' @ NAME_OVN @ '' ''
               @ ''networking. No resources needs to be migrated.'')
     else
       bind is_legacy_project (\<lambda>legacy'.
       return (join '' ''
         ((if legacy'
           then [''Project '' @ pname @ '' needs to switch to '' @ NAME_OVN @ '' networking.'']
           else [''Project '' @ pname @ '' is already using '' @ NAME_OVN @ '' networking.''])
          @ (if rowcount \<noteq> 0 then [''The following resources needs to be migrated:'']
             else [])))))"

definition check :: "check_args \<Rightarrow> unit prog" where
  "check args =
     bind (emit (Call ''check'')) (\<lambda>_.
     bind (read current_project_id) (\<lambda>pid.
     bind (get_project pid) (\<lambda>proj.
     bind (print (''Project: '' @ project_name proj)) (\<lambda>_.
     bind is_legacy_project (\<lambda>legacy.
     bind (print (''Networking: '' @ (if legacy then NAME_MIDONET else NAME_OVN))) (\<lambda>_.
     bind (print ''Checking resources. This might take a while...'') (\<lambda>_.
     bind (resources_to_prettyrows (networks (Some False) None (Some pid))
             (all_resources args)) (\<lambda>rows1.
     bind (resources_to_prettyrows routers (all_resources args)) (\<lambda>rows2.
     bind (resources_to_prettyrows ips (all_resources args)) (\<lambda>rows3.
     bind (resources_to_prettyrows servers (all_resources args)) (\<lambda>rows4.
     bind (check_summary (project_name proj) (length (rows1 @ rows2 @ rows3 @ rows4))) (\<lambda>output.
     bind (print output) (\<lambda>_.
     if length (rows1 @ rows2 @ rows3 @ rows4) \<noteq> 0
     then emit (PrintTable header (rows1 @ rows2 @ rows3 @ rows4))
     else return ())))))))))))))"

definition switch :: "switch_args \<Rightarrow> unit prog" where
  "switch args =
     bind (emit (Call ''switch'')) (\<lambda>_.
     bind (print ''Switching project networking'') (\<lambda>_.
     bind is_tenant_manager (\<lambda>tm.
     if \<not> tm then
       print (''You do not have sufficient privileges to switch this project. ''
              @ ''You need the 'TenantManager' role on this project'')
     else
       bind (read current_project_id) (\<lambda>pid.
       bind (get_project pid) (\<lambda>proj.
       if networking args = NAME_MIDONET then
         bind is_legacy_project (\<lambda>legacy.
         if legacy then print (''Project is already set to '' @ NAME_MIDONET @ '' networking'')
         else
           bind (add_tag proj TAG_LEGACY) (\<lambda>_.
           bind (print (''Project set to '' @ NAME_MIDONET @ '' networking.'')) (\<lambda>_.
           print (''Please wait '' @ CACHE_TIMEOUT @ '' for changes to propagate to ''
                  @ ''all service.''))))
       else if networking args = NAME_OVN then
         bind is_legacy_project (\<lambda>legacy.
         if \<not> legacy then print (''Project is already set to '' @ NAME_OVN @ '' networking'')
         else
           bind (remove_tag proj TAG_LEGACY) (\<lambda>_.
           bind (print (''Project set to '' @ NAME_OVN @ '' networking.'')) (\<lambda>_.
           print (''Please wait '' @ CACHE_TIMEOUT @ '' for changes to propagate to ''
                  @ ''all services.''))))
       else return ())))))"

text \<open>
  The choices that the argument parser accepts for \<^verbatim>\<open>networking\<close>; a namespace
  comes out of the parser only with one of them.
\<close>

definition networking_choices :: "string list" where
  "networking_choices = [NAME_MIDONET, NAME_OVN]"

fun parsed :: "namespace \<Rightarrow> bool" where
  "parsed (CheckNS _) = True"
| "parsed (SwitchNS a) = (networking a \<in> set networking_choices)"

fun command :: "namespace \<Rightarrow> unit prog" where
  "command (CheckNS a) = check a"
| "command (SwitchNS a) = switch a"

definition main :: "namespace \<Rightarrow> unit prog" where
  "main args =
     bind check_sanity (\<lambda>sane.
     if \<not> sane then return () else command args)"

section \<open>A sample cloud\<close>

text \<open>
  One project with a legacy and a modern private network, four routers, three floating
  IPs and two servers; the caller holds TenantManager and the project is on modern
  networking. The variants take the role assignment away, or tag the project legacy.
\<close>

definition demo_networks :: "network list" where
  "demo_networks =
     [\<lparr>network_id = ''net-ext-ovn'', network_name = ''public'', network_project_id = ''admin'',
       is_router_external = True, provider_network_type = Some ''flat'',
       network_tags = [''nectar:floating'']\<rparr>,
      \<lparr>network_id = ''net-ext-mido'', network_name = ''public-legacy'',
       network_project_id = ''admin'', is_router_external = True,
       provider_network_type = Some ''midonet'', network_tags = []\<rparr>,
      \<lparr>network_id = ''net-a'', network_name = ''old-net'', network_project_id = ''p1'',
       is_router_external = False, provider_network_type = Some ''midonet'',
       network_tags = []\<rparr>,
      \<lparr>network_id = ''net-b'', network_name = ''new-net'', network_project_id = ''p1'',
       is_router_external = False, provider_network_type = Some ''geneve'',
       network_tags = []\<rparr>]"

definition router_unattached :: router where
  "router_unattached = \<lparr>router_id = ''rt-0'', router_name = ''r0'',
     external_gateway_info = Some [(''network_id'', ''net-ext-mido'')]\<rparr>"

definition router_legacy_gw :: router where
  "router_legacy_gw = \<lparr>router_id = ''rt-1'', router_name = ''r1'',
     external_gateway_info = Some [(''network_id'', ''net-ext-mido'')]\<rparr>"

definition router_modern_gw :: router where
  "router_modern_gw = \<lparr>router_id = ''rt-2'', router_name = ''r2'',
     external_gateway_info = Some [(''network_id'', ''net-ext-ovn'')]\<rparr>"

definition router_no_gw :: router where
  "router_no_gw = \<lparr>router_id = ''rt-3'', router_name = ''r3'', external_gateway_info = None\<rparr>"

definition fip_unused :: floatingip where
  "fip_unused = \<lparr>fip_id = ''fip-0'', fip_name = ''203.0.113.10'',
     floating_network_id = ''net-ext-mido'', port_id = None\<rparr>"

definition fip_bound :: floatingip where
  "fip_bound = \<lparr>fip_id = ''fip-1'', fip_name = ''203.0.113.11'',
     floating_network_id = ''net-ext-mido'', port_id = Some ''port-s0''\<rparr>"

definition fip_modern :: floatingip where
  "fip_modern = \<lparr>fip_id = ''fip-2'', fip_name = ''198.51.100.7'',
     floating_network_id = ''net-ext-ovn'', port_id = None\<rparr>"

definition demo_cloud :: cloud where
  "demo_cloud =
     \<lparr>current_user_id = ''u1'',
      current_project_id = ''p1'',
      role_lookup_forbidden = False,
      cloud_roles = [\<lparr>role_id = ''role-tm'', role_name = ''TenantManager''\<rparr>],
      cloud_role_assignments = [\<lparr>ra_user = ''u1'', ra_project = ''p1'', ra_role = ''role-tm''\<rparr>],
      cloud_projects = [\<lparr>project_id = ''p1'', project_name = ''demo'', project_tags = [''web'']\<rparr>],
      cloud_networks = demo_networks,
      cloud_ports =
        [\<lparr>port_ident = ''port-r1'', port_name = [], device_id = ''rt-1'',
          device_owner = ''network:router_interface''\<rparr>,
         \<lparr>port_ident = ''port-r2'', port_name = [], device_id = ''rt-2'',
          device_owner = ''network:router_interface''\<rparr>,
         \<lparr>port_ident = ''port-r3'', port_name = [], device_id = ''rt-3'',
          device_owner = ''network:router_interface''\<rparr>,
         \<lparr>port_ident = ''port-gw0'', port_name = [], device_id = ''rt-0'',
          device_owner = ''network:router_gateway''\<rparr>],
      cloud_routers = [router_unattached, router_legacy_gw, router_modern_gw, router_no_gw],
      cloud_ips = [fip_unused, fip_bound, fip_modern],
      cloud_servers =
        [\<lparr>server_id = ''srv-0'', server_name = ''old-vm''\<rparr>,
         \<lparr>server_id = ''srv-1'', server_name = ''new-vm''\<rparr>],
      cloud_interfaces =
        [\<lparr>iface_port_id = ''port-s0'', iface_name = [], iface_server_id = ''srv-0'',
          net_id = ''net-a''\<rparr>,
         \<lparr>iface_port_id = ''port-s1'', iface_name = [], iface_server_id = ''srv-1'',
          net_id = ''net-b''\<rparr>]\<rparr>"

definition demo_cloud_no_role :: cloud where
  "demo_cloud_no_role = demo_cloud\<lparr>cloud_role_assignments := []\<rparr>"

definition demo_cloud_legacy :: cloud where
  "demo_cloud_legacy = set_project_tags ''p1'' (\<lambda>ts. ts @ [TAG_LEGACY])
     (demo_cloud\<lparr>cloud_networks :=
        map (\<lambda>n. n\<lparr>network_tags :=
                      (if network_id n = ''net-ext-mido'' then [''nectar:floating''] else [])\<rparr>)
          demo_networks\<rparr>)"

section \<open>Reading the events of a run\<close>

fun calls :: "event list \<Rightarrow> string list" where
  "calls [] = []"
| "calls (Call f # es) = f # calls es"
| "calls (_ # es) = calls es"

fun tables :: "event list \<Rightarrow> string list list list" where
  "tables [] = []"
| "tables (PrintTable h rows # es) = rows # tables es"
| "tables (_ # es) = tables es"

datatype kind = KCall | KQuery | KMutation | KPrint | KTable

fun kind_of :: "event \<Rightarrow> kind" where
  "kind_of (Call _) = KCall"
| "kind_of (Api a) = (if is_mutation a then KMutation else KQuery)"
| "kind_of (Print _) = KPrint"
| "kind_of (PrintTable _ _) = KTable"

text \<open>\<open>emits K m\<close>: on every cloud, the program \<open>m\<close> produces events of the kinds \<open>K\<close> only.\<close>

definition emits :: "kind set \<Rightarrow> 'a prog \<Rightarrow> bool" where
  "emits K m = (\<forall>c. \<forall>e \<in> set (events (m c)). kind_of e \<in> K)"

section \<open>Outcome, final cloud and events of the combinators\<close>

lemma result_return: "result (return x c) = Inr x"
  and final_return: "final (return x c) = c"
  and events_return: "events (return x c) = []"
  by (simp_all add: return_def result_def final_def events_def)

lemma result_raise: "result (raise e c) = Inl e"
  and final_raise: "final (raise e c) = c"
  and events_raise: "events (raise e c) = []"
  by (simp_all add: raise_def result_def final_def events_def)

lemma result_emit: "result (emit e c) = Inr ()"
  and final_emit: "final (emit e c) = c"
  and events_emit: "events (emit e c) = [e]"
  by (simp_all add: emit_def result_def final_def events_def)

lemma result_print: "result (print s c) = Inr ()"
  and final_print: "final (print s c) = c"
  and events_print: "events (print s c) = [Print s]"
  by (simp_all add: print_def result_emit final_emit events_emit)

lemma result_read: "result (read f c) = Inr (f c)"
  and final_read: "final (read f c) = c"
  and events_read: "events (read f c) = []"
  by (simp_all add: read_def result_def final_def events_def)

lemma result_request: "result (request call f c) = f c"
  and final_request: "final (request call f c) = c"
  and events_request: "events (request call f c) = [Api call]"
  by (simp_all add: request_def result_def final_def events_def)

lemma result_bind:
  "result (bind m f c) =
     (case result (m c) of Inl e \<Rightarrow> Inl e | Inr x \<Rightarrow> result (f x (final (m c))))"
  by (simp add: bind_def result_def final_def split: prod.splits sum.splits)

lemma final_bind:
  "final (bind m f c) =
     (case result (m c) of Inl e \<Rightarrow> final (m c) | Inr x \<Rightarrow> final (f x (final (m c))))"
  by (simp add: bind_def result_def final_def split: prod.splits sum.splits)

lemma events_bind:
  "events (bind m f c) =
     (case result (m c) of
        Inl e \<Rightarrow> events (m c)
      | Inr x \<Rightarrow> events (m c) @ events (f x (final (m c))))"
  by (simp add: bind_def result_def final_def events_def split: prod.splits sum.splits)

lemma result_catch:
  "result (catch h m c) =
     (case result (m c) of
        Inl e \<Rightarrow> if e = h then Inr None else Inl e
      | Inr x \<Rightarrow> Inr (Some x))"
  by (simp add: catch_def result_def split: prod.splits sum.splits)

lemma final_catch: "final (catch h m c) = final (m c)"
  by (simp add: catch_def final_def split: prod.splits sum.splits)

lemma events_catch: "events (catch h m c) = events (m c)"
  by (simp add: catch_def events_def split: prod.splits sum.splits)

lemmas prog_simps =
  result_return final_return events_return result_raise final_raise events_raise
  result_emit final_emit events_emit result_print final_print events_print
  result_read final_read events_read result_request final_request events_request
  result_bind final_bind events_bind result_catch final_catch events_catch

lemma final_get_project: "final (get_project p c) = c"
  by (simp add: get_project_def prog_simps)

lemma final_is_tenant_manager: "final (is_tenant_manager c) = c"
  by (simp add: is_tenant_manager_def get_role_def list_role_assignments_def prog_simps
      split: sum.splits option.splits)

lemma final_is_legacy_project: "final (is_legacy_project c) = c"
  by (simp add: is_legacy_project_def get_project_def prog_simps split: sum.splits)

lemma final_get_network: "final (get_network x c) = c"
  by (simp add: get_network_def prog_simps)

lemma final_is_legacy_network: "final (is_legacy_network x c) = c"
  by (cases x rule: is_legacy_network.cases)
     (simp_all add: get_network_def prog_simps split: sum.splits)

section \<open>Legacy classification of a network\<close>

text \<open>
  C6. \<^verbatim>\<open>is_legacy_network\<close>, given a network object, returns whether the provider
  network type of that network is \<^verbatim>\<open>'midonet'\<close>; given an identifier that the
  lookup resolves to a network, it returns whether the provider network type of the
  resolved network is \<^verbatim>\<open>'midonet'\<close>.
\<close>

theorem is_legacy_network_iff_midonet:
  "result (is_legacy_network (Resource (Network n)) c)
     = Inr (provider_network_type n = Some ''midonet'')
   \<and> (result (get_network (Value (PyStr i)) c) = Inr n' \<longrightarrow>
        result (is_legacy_network (Value (PyStr i)) c)
          = Inr (provider_network_type n' = Some ''midonet''))"
  by (simp add: prog_simps)

theorem is_legacy_network_iff_midonet_witness:
  "result (get_network (Value (PyStr ''net-a'')) demo_cloud) = Inr (demo_networks ! 2)
   \<and> result (is_legacy_network (Value (PyStr ''net-a'')) demo_cloud) = Inr True
   \<and> result (is_legacy_network (Resource (Network (demo_networks ! 3))) demo_cloud) = Inr False"
  using is_legacy_network_iff_midonet
          [of "demo_networks ! 3" demo_cloud "''net-a''" "demo_networks ! 2"]
  by (simp add: get_network_def demo_cloud_def demo_networks_def result_request)

section \<open>The consistency probe check\_sync\<close>

lemma check_sync_raises:
  "check_sync c =
     (Inl (TypeError (CHR 0x27 # ''generator' object is not subscriptable'')), c, [])"
  by (simp add: check_sync_def generator_getitem_def bind_def raise_def)

text \<open>
  C3. \<^verbatim>\<open>check_sync\<close> is meant to return whether the legacy classification of the
  first external network equals the legacy tag state of the project. It subscripts the
  generator that \<^verbatim>\<open>conn.network.networks(is_router_external=True)\<close> returns, without
  the \<^verbatim>\<open>list(...)\<close> that \<^verbatim>\<open>check_sanity\<close> puts around the same call, so on the
  sample cloud (as on any other) it returns no boolean: it raises a TypeError before
  any request is made.
\<close>

theorem check_sync_raises_on_demo_cloud:
  "result (check_sync demo_cloud)
     = Inl (TypeError (CHR 0x27 # ''generator' object is not subscriptable''))
   \<and> events (check_sync demo_cloud) = []"
  by (simp add: check_sync_raises result_def events_def)

section \<open>Recommendations for routers and floating IPs\<close>

lemma result_py_list_ports:
  "result (py_list (ports d ow) c) = Inr (filter (\<lambda>p. device_id p = d \<and> device_owner p = ow) (cloud_ports c))"
  and final_py_list_ports: "final (py_list (ports d ow) c) = c"
  by (simp_all add: ports_def prog_simps)

lemma demo_net_results:
  "result (is_legacy_network (Value (PyStr ''net-ext-mido'')) demo_cloud) = Inr True"
  "result (is_legacy_network (Value (PyStr ''net-ext-ovn'')) demo_cloud) = Inr False"
  by (simp_all add: get_network_def demo_cloud_def demo_networks_def prog_simps)

lemma demo_ports:
  "result (py_list (ports ''rt-0'' ''network:router_interface'') demo_cloud) = Inr []"
  "result (py_list (ports ''rt-1'' ''network:router_interface'') demo_cloud) = Inr [cloud_ports demo_cloud ! 0]"
  "result (py_list (ports ''rt-2'' ''network:router_interface'') demo_cloud) = Inr [cloud_ports demo_cloud ! 1]"
  "result (py_list (ports ''rt-3'' ''network:router_interface'') demo_cloud) = Inr [cloud_ports demo_cloud ! 2]"
  by (simp_all add: result_py_list_ports demo_cloud_def)

text \<open>
  C4. The recommendation computed for a router: with no port of owner
  \<^verbatim>\<open>network:router_interface\<close> attached to it, it is exactly
  \<^verbatim>\<open>No networks attached, Delete\<close>, whatever the gateway; with at least one such
  port and an external gateway on a legacy network, it is \<^verbatim>\<open>Replace\<close>; with at
  least one such port and a gateway on a network that is not legacy, or no gateway at
  all, there is none.
\<close>

theorem router_recommendation:
  "(result (py_list (ports (router_id r) ''network:router_interface'') c) = Inr [] \<longrightarrow>
      map_sum id recommendation (result (PrettyRouter (Resource (Router r)) c))
        = Inr (Some ''No networks attached, Delete''))
   \<and> (result (py_list (ports (router_id r) ''network:router_interface'') c) = Inr ps \<and> ps \<noteq> [] \<and>
        external_gateway_info r = Some info \<and> map_of info ''network_id'' = Some nid \<and>
        result (is_legacy_network (Value (PyStr nid)) c) = Inr True \<longrightarrow>
      map_sum id recommendation (result (PrettyRouter (Resource (Router r)) c))
        = Inr (Some ''Replace''))
   \<and> (result (py_list (ports (router_id r) ''network:router_interface'') c) = Inr ps \<and> ps \<noteq> [] \<and>
        external_gateway_info r = Some info \<and> map_of info ''network_id'' = Some nid \<and>
        result (is_legacy_network (Value (PyStr nid)) c) = Inr False \<longrightarrow>
      map_sum id recommendation (result (PrettyRouter (Resource (Router r)) c)) = Inr None)
   \<and> (result (py_list (ports (router_id r) ''network:router_interface'') c) = Inr ps \<and> ps \<noteq> [] \<and>
        external_gateway_info r = None \<longrightarrow>
      map_sum id recommendation (result (PrettyRouter (Resource (Router r)) c)) = Inr None)"
  by (simp add: PrettyRouter_def PrettyResource_init_def PrettyRouter_get_recommendation_def
        dict_getitem_def result_bind final_bind result_return final_return
        final_py_list_ports final_is_legacy_network)

theorem router_recommendation_witness:
  "map_sum id recommendation (result (PrettyRouter (Resource (Router router_unattached)) demo_cloud))
     = Inr (Some ''No networks attached, Delete'')
   \<and> map_sum id recommendation (result (PrettyRouter (Resource (Router router_legacy_gw)) demo_cloud))
     = Inr (Some ''Replace'')
   \<and> map_sum id recommendation (result (PrettyRouter (Resource (Router router_modern_gw)) demo_cloud))
     = Inr None
   \<and> map_sum id recommendation (result (PrettyRouter (Resource (Router router_no_gw)) demo_cloud))
     = Inr None"
proof -
  have unattached:
    "map_sum id recommendation
       (result (PrettyRouter (Resource (Router router_unattached)) demo_cloud))
     = Inr (Some ''No networks attached, Delete'')"
    using router_recommendation [where r = router_unattached and c = demo_cloud and ps = "[]"
        and info = "[]" and nid = "[]"]
    by (simp add: demo_ports router_unattached_def del: is_legacy_network.simps)
  have legacy:
    "map_sum id recommendation
       (result (PrettyRouter (Resource (Router router_legacy_gw)) demo_cloud))
     = Inr (Some ''Replace'')"
    using router_recommendation [where r = router_legacy_gw and c = demo_cloud
        and ps = "[cloud_ports demo_cloud ! 0]" and info = "[(''network_id'', ''net-ext-mido'')]"
        and nid = "''net-ext-mido''"]
    by (simp add: demo_ports demo_net_results router_legacy_gw_def del: is_legacy_network.simps)
  have modern:
    "map_sum id recommendation
       (result (PrettyRouter (Resource (Router router_modern_gw)) demo_cloud))
     = Inr None"
    using router_recommendation [where r = router_modern_gw and c = demo_cloud
        and ps = "[cloud_ports demo_cloud ! 1]" and info = "[(''network_id'', ''net-ext-ovn'')]"
        and nid = "''net-ext-ovn''"]
    by (simp add: demo_ports demo_net_results router_modern_gw_def del: is_legacy_network.simps)
  have no_gw:
    "map_sum id recommendation
       (result (PrettyRouter (Resource (Router router_no_gw)) demo_cloud))
     = Inr None"
    using router_recommendation [where r = router_no_gw and c = demo_cloud
        and ps = "[cloud_ports demo_cloud ! 2]" and info = "[]" and nid = "[]"]
    by (simp add: demo_ports router_no_gw_def del: is_legacy_network.simps)
  from unattached legacy modern no_gw show ?thesis by simp
qed

text \<open>
  C5. The recommendation computed for a floating IP: on a legacy floating network it is
  \<^verbatim>\<open>Unused, Delete\<close> when \<^verbatim>\<open>port_id\<close> is None and \<^verbatim>\<open>Replace\<close> when it is
  not; on a floating network that is not legacy there is none.
\<close>

theorem fip_recommendation:
  "(result (is_legacy_network (Value (PyStr (floating_network_id f))) c) = Inr True \<and> port_id f = None \<longrightarrow>
      map_sum id recommendation (result (PrettyFIP (Resource (FloatingIP f)) c))
        = Inr (Some ''Unused, Delete''))
   \<and> (result (is_legacy_network (Value (PyStr (floating_network_id f))) c) = Inr True \<and> port_id f \<noteq> None \<longrightarrow>
      map_sum id recommendation (result (PrettyFIP (Resource (FloatingIP f)) c))
        = Inr (Some ''Replace''))
   \<and> (result (is_legacy_network (Value (PyStr (floating_network_id f))) c) = Inr False \<longrightarrow>
      map_sum id recommendation (result (PrettyFIP (Resource (FloatingIP f)) c)) = Inr None)"
  by (simp add: PrettyFIP_def PrettyResource_init_def PrettyFIP_get_recommendation_def
        result_bind final_bind result_return final_return final_is_legacy_network)

theorem fip_recommendation_witness:
  "map_sum id recommendation (result (PrettyFIP (Resource (FloatingIP fip_unused)) demo_cloud))
     = Inr (Some ''Unused, Delete'')
   \<and> map_sum id recommendation (result (PrettyFIP (Resource (FloatingIP fip_bound)) demo_cloud))
     = Inr (Some ''Replace'')
   \<and> map_sum id recommendation (result (PrettyFIP (Resource (FloatingIP fip_modern)) demo_cloud))
     = Inr None"
  using fip_recommendation [of fip_unused demo_cloud] fip_recommendation [of fip_bound demo_cloud]
    fip_recommendation [of fip_modern demo_cloud]
  by (simp add: demo_net_results fip_unused_def fip_bound_def fip_modern_def
        del: is_legacy_network.simps)

section \<open>Classification never changes the cloud, and rejects what it does not know\<close>

lemma final_py_list: "final (py_list g c) = c"
  by (cases g) (simp add: final_request)

lemma final_attr_floating_network_id: "final (attr_floating_network_id r c) = c"
  by (cases r) (simp_all add: prog_simps)

lemma final_attr_port_id: "final (attr_port_id r c) = c"
  by (cases r) (simp_all add: prog_simps)

lemma final_attr_external_gateway_info: "final (attr_external_gateway_info r c) = c"
  by (cases r) (simp_all add: prog_simps)

lemma final_dict_getitem: "final (dict_getitem d k c) = c"
  by (simp add: dict_getitem_def prog_simps split: option.splits)

lemma final_PrettyFIP_get_recommendation: "final (PrettyFIP_get_recommendation r c) = c"
  by (simp add: PrettyFIP_get_recommendation_def final_bind final_return
      final_attr_floating_network_id final_attr_port_id final_is_legacy_network
      split: sum.splits del: is_legacy_network.simps)

lemma final_PrettyNetwork_get_recommendation: "final (PrettyNetwork_get_recommendation r c) = c"
  by (simp add: PrettyNetwork_get_recommendation_def final_bind final_return
      final_is_legacy_network split: sum.splits del: is_legacy_network.simps)

lemma final_PrettyRouter_get_recommendation: "final (PrettyRouter_get_recommendation r c) = c"
  by (simp add: PrettyRouter_get_recommendation_def final_bind final_return final_py_list
      final_attr_external_gateway_info final_dict_getitem final_is_legacy_network
      split: sum.splits option.splits del: is_legacy_network.simps)

lemma final_legacy_networks_loop: "final (legacy_networks_loop is acc c) = c"
  by (induction "is" arbitrary: acc)
     (simp_all add: final_bind final_return final_get_network final_is_legacy_network
        split: sum.splits del: is_legacy_network.simps)

lemma final_PrettyServer_get_recommendation: "final (PrettyServer_get_recommendation r c) = c"
  by (simp add: PrettyServer_get_recommendation_def final_bind final_return final_py_list
      final_legacy_networks_loop split: sum.splits)

lemma final_PrettyResource_init:
  "(\<And>r c. final (g r c) = c) \<Longrightarrow> final (PrettyResource_init g obj c) = c"
  by (simp add: PrettyResource_init_def final_bind final_return final_raise
      split: pyobj.splits sum.splits)

lemma final_resource_to_prettyresource: "final (resource_to_prettyresource obj c) = c"
proof (cases obj)
  case (Value v)
  then show ?thesis by (simp add: resource_to_prettyresource_def final_raise)
next
  case (Resource r)
  then show ?thesis
    by (cases r)
       (simp_all add: resource_to_prettyresource_def query_map_def globals_def dict_getitem_def
          final_bind final_return final_raise result_return PrettyFIP_def PrettyNetwork_def
          PrettyRouter_def PrettyServer_def final_PrettyResource_init
          final_PrettyFIP_get_recommendation final_PrettyNetwork_get_recommendation
          final_PrettyRouter_get_recommendation final_PrettyServer_get_recommendation)
qed

lemma final_mapM:
  "(\<And>x c. final (f x c) = c) \<Longrightarrow> final (mapM f xs c) = c"
  by (induction xs) (simp_all add: final_bind final_return split: sum.splits)

lemma mapM_fails:
  assumes ro: "\<And>x c. final (f x c) = c"
    and bad: "x \<in> set xs" "isl (result (f x c))"
  shows "isl (result (mapM f xs c))"
  using bad
proof (induction xs)
  case Nil
  then show ?case by simp
next
  case (Cons y ys)
  show ?case
  proof (cases "result (f y c)")
    case (Inl e)
    then show ?thesis by (simp add: result_bind)
  next
    case (Inr v)
    with Cons.prems have "x \<in> set ys" by auto
    with Cons have "isl (result (mapM f ys c))" by simp
    then show ?thesis
      by (auto simp add: result_bind final_bind ro final_mapM result_return Inr
          split: sum.splits)
  qed
qed

text \<open>
  C9. A value that is not a resource object makes the constructor of every
  classification class, and the dispatch \<^verbatim>\<open>_resource_to_prettyresource\<close>, raise a
  TypeError; a resource whose key is none of floatingip, network, router and server
  makes the dispatch raise a ValueError. Nothing catches them: when the resources
  handed to \<^verbatim>\<open>_resources_to_prettyrows\<close> contain such an object, the call ends with
  an exception and returns no rows.
\<close>

theorem classification_rejects_unrecognized:
  "result (PrettyResource_init get_rec (Value v) c)
     = Inl (TypeError (''Expected openstack.resource.Resource, got '' @ type_repr v))
   \<and> result (resource_to_prettyresource (Value v) c)
     = Inl (TypeError (''Expected openstack.resource.Resource, got '' @ type_repr v))
   \<and> (resource_key r \<notin> {''floatingip'', ''network'', ''router'', ''server''} \<longrightarrow>
        result (resource_to_prettyresource (Resource r) c)
          = Inl (ValueError (''Unknown resource type '' @ resource_key r)))
   \<and> (result (py_list resources c) = Inr objs \<and> obj \<in> set objs \<and>
        (obj = Value v \<or>
         obj = Resource r \<and> resource_key r \<notin> {''floatingip'', ''network'', ''router'', ''server''})
        \<longrightarrow> isl (result (resources_to_prettyrows resources show_all c)))"
proof -
  have ty: "result (resource_to_prettyresource (Value v) c)
     = Inl (TypeError (''Expected openstack.resource.Resource, got '' @ type_repr v))"
    by (simp add: resource_to_prettyresource_def result_raise)
  have val: "resource_key r \<notin> {''floatingip'', ''network'', ''router'', ''server''} \<Longrightarrow>
        result (resource_to_prettyresource (Resource r) c)
          = Inl (ValueError (''Unknown resource type '' @ resource_key r))"
    by (cases r) (simp_all add: resource_to_prettyresource_def query_map_def result_raise)
  have init: "result (PrettyResource_init get_rec (Value v) c)
     = Inl (TypeError (''Expected openstack.resource.Resource, got '' @ type_repr v))"
    by (simp add: PrettyResource_init_def result_raise)
  have rows: "isl (result (resources_to_prettyrows resources show_all c))"
    if "result (py_list resources c) = Inr objs" "obj \<in> set objs"
      "obj = Value v \<or>
         obj = Resource r \<and> resource_key r \<notin> {''floatingip'', ''network'', ''router'', ''server''}"
  proof -
    from that(3) ty val have "isl (result (resource_to_prettyresource obj c))" by auto
    with that(2) have "isl (result (mapM resource_to_prettyresource objs c))"
      by (rule mapM_fails [OF final_resource_to_prettyresource])
    then show ?thesis
      by (auto simp add: resources_to_prettyrows_def result_bind that(1) final_py_list
          split: sum.splits)
  qed
  from ty val init rows show ?thesis by blast
qed


theorem classification_rejects_unrecognized_witness:
  "result (resource_to_prettyresource
            (Resource (Port \<lparr>port_ident = ''port-r1'', port_name = [], device_id = ''rt-1'',
                              device_owner = ''network:router_interface''\<rparr>)) demo_cloud)
     = Inl (ValueError ''Unknown resource type port'')
   \<and> isl (result (resources_to_prettyrows
                    (Generator ListIps (\<lambda>c. Inr [Resource (FloatingIP fip_modern),
                                                 Value (PyStr ''fip-1'')]))
                    False demo_cloud))"
  using classification_rejects_unrecognized
    [where r = "Port \<lparr>port_ident = ''port-r1'', port_name = [], device_id = ''rt-1'',
                     device_owner = ''network:router_interface''\<rparr>"
       and c = demo_cloud and v = "PyStr ''fip-1''" and obj = "Value (PyStr ''fip-1'')"
       and resources = "Generator ListIps (\<lambda>c. Inr [Resource (FloatingIP fip_modern),
                                                 Value (PyStr ''fip-1'')])"
       and objs = "[Resource (FloatingIP fip_modern), Value (PyStr ''fip-1'')]"
       and show_all = False]
  by (simp add: result_request)

section \<open>Switching the networking mode\<close>

lemma printed_append: "printed (xs @ ys) = printed xs @ printed ys"
  by (induction xs rule: printed.induct) simp_all

lemma api_calls_append: "api_calls (xs @ ys) = api_calls xs @ api_calls ys"
  by (induction xs rule: api_calls.induct) simp_all

lemma events_get_project: "events (get_project p c) = [Api (GetProject p)]"
  by (simp add: get_project_def prog_simps)

lemma events_is_legacy_project:
  "events (is_legacy_project c) = [Api (GetProject (current_project_id c))]"
  by (simp add: is_legacy_project_def get_project_def prog_simps split: sum.splits)

lemma printed_is_tenant_manager: "printed (events (is_tenant_manager c)) = []"
  by (simp add: is_tenant_manager_def get_role_def list_role_assignments_def prog_simps
      split: sum.splits option.splits)

lemma mutations_is_tenant_manager:
  "filter is_mutation (api_calls (events (is_tenant_manager c))) = []"
  by (simp add: is_tenant_manager_def get_role_def list_role_assignments_def prog_simps
      split: sum.splits option.splits)

lemma is_legacy_project_get_project:
  "result (is_legacy_project c) = Inr legacy \<Longrightarrow>
     \<exists>proj. result (get_project (current_project_id c) c) = Inr proj
          \<and> legacy = (TAG_LEGACY \<in> set (project_tags proj))"
  by (auto simp add: is_legacy_project_def prog_simps final_get_project split: sum.splits)

lemma find_set_tags:
  "find (\<lambda>q. project_id q = pid)
     (map (\<lambda>q. if project_id q = pid then q\<lparr>project_tags := f (project_tags q)\<rparr> else q) ps)
   = map_option (\<lambda>q. q\<lparr>project_tags := f (project_tags q)\<rparr>)
       (find (\<lambda>q. project_id q = pid) ps)"
  by (induction ps) simp_all

lemma result_get_project_set_project_tags:
  "result (get_project pid (set_project_tags pid f c))
     = map_sum id (\<lambda>q. q\<lparr>project_tags := f (project_tags q)\<rparr>) (result (get_project pid c))"
  by (simp add: get_project_def set_project_tags_def result_request find_set_tags
      split: option.splits)

lemma is_tenant_manager_set_project_tags:
  "result (is_tenant_manager (set_project_tags pid f c)) = result (is_tenant_manager c)"
  by (simp add: is_tenant_manager_def get_role_def list_role_assignments_def
      set_project_tags_def prog_simps split: sum.splits option.splits)

lemma current_project_id_set_project_tags:
  "current_project_id (set_project_tags pid f c) = current_project_id c"
  by (simp add: set_project_tags_def)

lemma get_project_id:
  "result (get_project pid c) = Inr proj \<Longrightarrow> project_id proj = pid"
  by (auto simp add: get_project_def result_request split: option.splits dest: find_Some_iff [THEN iffD1])

lemma get_project_find:
  "result (get_project pid c) = Inr proj \<Longrightarrow>
     find (\<lambda>q. project_id q = pid) (cloud_projects c) = Some proj"
  by (auto simp add: get_project_def result_request split: option.splits)

lemma add_tag_found:
  assumes "find (\<lambda>q. project_id q = project_id p) (cloud_projects c) = Some q"
  shows "result (add_tag p tag c) = Inr ()"
    and "final (add_tag p tag c)
           = set_project_tags (project_id p) (\<lambda>ts. if tag \<in> set ts then ts else ts @ [tag]) c"
    and "events (add_tag p tag c) = [Api (AddTag (project_id p) tag)]"
  using assms by (simp_all add: add_tag_def result_def final_def events_def)

lemma remove_tag_found:
  assumes "find (\<lambda>q. project_id q = project_id p) (cloud_projects c) = Some q"
    and "tag \<in> set (project_tags q)"
  shows "result (remove_tag p tag c) = Inr ()"
    and "final (remove_tag p tag c) = set_project_tags (project_id p) (removeAll tag) c"
    and "events (remove_tag p tag c) = [Api (RemoveTag (project_id p) tag)]"
  using assms by (simp_all add: remove_tag_def result_def final_def events_def)

lemma switch_to_legacy:
  assumes tm: "result (is_tenant_manager c) = Inr True"
    and gp: "result (get_project (current_project_id c) c) = Inr proj"
    and notag: "TAG_LEGACY \<notin> set (project_tags proj)"
  shows "result (switch \<lparr>networking = NAME_MIDONET\<rparr> c) = Inr ()"
    and "final (switch \<lparr>networking = NAME_MIDONET\<rparr> c)
           = set_project_tags (current_project_id c)
               (\<lambda>ts. if TAG_LEGACY \<in> set ts then ts else ts @ [TAG_LEGACY]) c"
proof -
  have found: "find (\<lambda>q. project_id q = project_id proj) (cloud_projects c) = Some proj"
    using get_project_find [OF gp] get_project_id [OF gp] by simp
  show "result (switch \<lparr>networking = NAME_MIDONET\<rparr> c) = Inr ()"
    using notag
    by (simp add: switch_def prog_simps tm gp final_is_tenant_manager final_get_project
          is_legacy_project_def add_tag_found [OF found])
  show "final (switch \<lparr>networking = NAME_MIDONET\<rparr> c)
           = set_project_tags (current_project_id c)
               (\<lambda>ts. if TAG_LEGACY \<in> set ts then ts else ts @ [TAG_LEGACY]) c"
    using notag
    by (simp add: switch_def prog_simps tm gp final_is_tenant_manager final_get_project
          is_legacy_project_def add_tag_found [OF found] get_project_id [OF gp])
qed

lemma switch_to_modern:
  assumes tm: "result (is_tenant_manager c) = Inr True"
    and gp: "result (get_project (current_project_id c) c) = Inr proj"
    and tag: "TAG_LEGACY \<in> set (project_tags proj)"
  shows "result (switch \<lparr>networking = NAME_OVN\<rparr> c) = Inr ()"
    and "final (switch \<lparr>networking = NAME_OVN\<rparr> c)
           = set_project_tags (current_project_id c) (removeAll TAG_LEGACY) c"
proof -
  have found: "find (\<lambda>q. project_id q = project_id proj) (cloud_projects c) = Some proj"
    using get_project_find [OF gp] get_project_id [OF gp] by simp
  have ne: "NAME_OVN \<noteq> NAME_MIDONET"
    by (simp add: NAME_OVN_def NAME_MIDONET_def)
  show "result (switch \<lparr>networking = NAME_OVN\<rparr> c) = Inr ()"
    using tag
    by (simp add: switch_def prog_simps tm gp final_is_tenant_manager final_get_project
          is_legacy_project_def remove_tag_found [OF found tag] ne)
  show "final (switch \<lparr>networking = NAME_OVN\<rparr> c)
           = set_project_tags (current_project_id c) (removeAll TAG_LEGACY) c"
    using tag
    by (simp add: switch_def prog_simps tm gp final_is_tenant_manager final_get_project
          is_legacy_project_def remove_tag_found [OF found tag] get_project_id [OF gp] ne)
qed

lemma demo_is_tenant_manager:
  "result (is_tenant_manager demo_cloud) = Inr True"
  "result (is_tenant_manager demo_cloud_legacy) = Inr True"
  "result (is_tenant_manager demo_cloud_no_role) = Inr False"
  by (simp_all add: is_tenant_manager_def get_role_def list_role_assignments_def prog_simps
        demo_cloud_def demo_cloud_legacy_def demo_cloud_no_role_def set_project_tags_def)

lemma demo_current_project_id:
  "current_project_id demo_cloud = ''p1''"
  "current_project_id demo_cloud_legacy = ''p1''"
  "current_project_id demo_cloud_no_role = ''p1''"
  by (simp_all add: demo_cloud_def demo_cloud_legacy_def demo_cloud_no_role_def
        set_project_tags_def)

lemma demo_get_project:
  "result (get_project ''p1'' demo_cloud)
     = Inr \<lparr>project_id = ''p1'', project_name = ''demo'', project_tags = [''web'']\<rparr>"
  "result (get_project ''p1'' demo_cloud_no_role)
     = Inr \<lparr>project_id = ''p1'', project_name = ''demo'', project_tags = [''web'']\<rparr>"
  "result (get_project ''p1'' demo_cloud_legacy)
     = Inr \<lparr>project_id = ''p1'', project_name = ''demo'',
            project_tags = [''web'', ''legacy-networking'']\<rparr>"
  by (simp_all add: get_project_def result_request demo_cloud_def demo_cloud_legacy_def
        demo_cloud_no_role_def set_project_tags_def TAG_LEGACY_def)

lemma demo_is_legacy_project:
  "result (is_legacy_project demo_cloud) = Inr False"
  "result (is_legacy_project demo_cloud_legacy) = Inr True"
  by (simp_all add: is_legacy_project_def result_bind result_read final_read result_return
        demo_current_project_id demo_get_project TAG_LEGACY_def)

text \<open>
  C7. Idempotence of \<^verbatim>\<open>switch\<close>: when the caller holds TenantManager and the
  requested mode is the mode the project is already in (legacy with the legacy tag,
  modern without it), \<^verbatim>\<open>switch\<close> returns normally, leaves the cloud, and so the
  tags of the project, as they were, makes no tag request, and prints the banner and
  the message that the project is already set to that networking.
\<close>

theorem switch_same_mode_is_noop:
  assumes tm: "result (is_tenant_manager c) = Inr True"
    and mode: "result (is_legacy_project c) = Inr legacy"
    and same: "networking args = (if legacy then NAME_MIDONET else NAME_OVN)"
  shows "result (switch args c) = Inr ()
    \<and> final (switch args c) = c
    \<and> printed (events (switch args c))
        = [''Switching project networking'',
           ''Project is already set to '' @ networking args @ '' networking'']
    \<and> filter is_mutation (api_calls (events (switch args c))) = []"
proof -
  from mode obtain proj where gp: "result (get_project (current_project_id c) c) = Inr proj"
    using is_legacy_project_get_project by blast
  show ?thesis
    by (cases legacy)
       (simp_all add: switch_def prog_simps tm gp mode same final_is_tenant_manager
          final_get_project final_is_legacy_project printed_append api_calls_append
          printed_is_tenant_manager mutations_is_tenant_manager events_get_project
          events_is_legacy_project NAME_MIDONET_def NAME_OVN_def)
qed

theorem switch_same_mode_is_noop_witness:
  "result (switch \<lparr>networking = ''modern''\<rparr> demo_cloud) = Inr ()
   \<and> final (switch \<lparr>networking = ''modern''\<rparr> demo_cloud) = demo_cloud
   \<and> printed (events (switch \<lparr>networking = ''modern''\<rparr> demo_cloud))
       = [''Switching project networking'', ''Project is already set to modern networking'']
   \<and> final (switch \<lparr>networking = ''legacy''\<rparr> demo_cloud_legacy) = demo_cloud_legacy
   \<and> printed (events (switch \<lparr>networking = ''legacy''\<rparr> demo_cloud_legacy))
       = [''Switching project networking'', ''Project is already set to legacy networking'']"
  using switch_same_mode_is_noop
          [where c = demo_cloud and legacy = False and args = "\<lparr>networking = ''modern''\<rparr>"]
        switch_same_mode_is_noop
          [where c = demo_cloud_legacy and legacy = True and args = "\<lparr>networking = ''legacy''\<rparr>"]
  by (simp add: demo_is_tenant_manager demo_is_legacy_project NAME_OVN_def NAME_MIDONET_def)

text \<open>
  C8. Round trip of \<^verbatim>\<open>switch\<close>: from a project without the legacy tag, with the
  caller holding TenantManager, \<^verbatim>\<open>switch(legacy)\<close> returns normally and puts the
  tag on the project, the caller still holds the role afterwards, and
  \<^verbatim>\<open>switch(modern)\<close> then returns normally and leaves the project as it was at the
  start, with its original tags.
\<close>

theorem switch_round_trip:
  assumes tm: "result (is_tenant_manager c) = Inr True"
    and gp: "result (get_project (current_project_id c) c) = Inr proj"
    and notag: "TAG_LEGACY \<notin> set (project_tags proj)"
  shows "result (switch \<lparr>networking = NAME_MIDONET\<rparr> c) = Inr ()
    \<and> result (is_tenant_manager (final (switch \<lparr>networking = NAME_MIDONET\<rparr> c))) = Inr True
    \<and> result (get_project (current_project_id c) (final (switch \<lparr>networking = NAME_MIDONET\<rparr> c)))
        = Inr (proj\<lparr>project_tags := project_tags proj @ [TAG_LEGACY]\<rparr>)
    \<and> result (switch \<lparr>networking = NAME_OVN\<rparr> (final (switch \<lparr>networking = NAME_MIDONET\<rparr> c)))
        = Inr ()
    \<and> result (get_project (current_project_id c)
         (final (switch \<lparr>networking = NAME_OVN\<rparr> (final (switch \<lparr>networking = NAME_MIDONET\<rparr> c)))))
        = Inr proj"
proof -
  let ?pid = "current_project_id c"
  let ?c1 = "set_project_tags ?pid (\<lambda>ts. if TAG_LEGACY \<in> set ts then ts else ts @ [TAG_LEGACY]) c"
  let ?p1 = "proj\<lparr>project_tags := project_tags proj @ [TAG_LEGACY]\<rparr>"
  have r1: "result (switch \<lparr>networking = NAME_MIDONET\<rparr> c) = Inr ()"
    and f1: "final (switch \<lparr>networking = NAME_MIDONET\<rparr> c) = ?c1"
    using switch_to_legacy [OF tm gp notag] by simp_all
  have tm1: "result (is_tenant_manager ?c1) = Inr True"
    by (simp add: is_tenant_manager_set_project_tags tm)
  have pid1: "current_project_id ?c1 = ?pid"
    by (simp add: current_project_id_set_project_tags)
  have gp1: "result (get_project ?pid ?c1) = Inr ?p1"
    using notag by (simp add: result_get_project_set_project_tags gp)
  have tag1: "TAG_LEGACY \<in> set (project_tags ?p1)" by simp
  have r2: "result (switch \<lparr>networking = NAME_OVN\<rparr> ?c1) = Inr ()"
    and f2: "final (switch \<lparr>networking = NAME_OVN\<rparr> ?c1)
               = set_project_tags ?pid (removeAll TAG_LEGACY) ?c1"
    using switch_to_modern [OF tm1, of ?p1] gp1 tag1 by (simp_all only: pid1)
  have gp2: "result (get_project ?pid (set_project_tags ?pid (removeAll TAG_LEGACY) ?c1)) = Inr proj"
    using notag by (simp add: result_get_project_set_project_tags gp)
  from r1 f1 tm1 gp1 r2 f2 gp2 show ?thesis by simp
qed

theorem switch_round_trip_witness:
  "result (get_project ''p1'' (final (switch \<lparr>networking = ''legacy''\<rparr> demo_cloud)))
     = Inr \<lparr>project_id = ''p1'', project_name = ''demo'',
            project_tags = [''web'', ''legacy-networking'']\<rparr>
   \<and> result (get_project ''p1''
        (final (switch \<lparr>networking = ''modern''\<rparr>
           (final (switch \<lparr>networking = ''legacy''\<rparr> demo_cloud)))))
     = Inr \<lparr>project_id = ''p1'', project_name = ''demo'', project_tags = [''web'']\<rparr>"
  using switch_round_trip
          [where c = demo_cloud
             and proj = "\<lparr>project_id = ''p1'', project_name = ''demo'', project_tags = [''web'']\<rparr>"]
  by (simp add: demo_is_tenant_manager demo_current_project_id demo_get_project
        NAME_OVN_def NAME_MIDONET_def TAG_LEGACY_def)

text \<open>
  C10. With a networking value that is neither \<^verbatim>\<open>legacy\<close> nor \<^verbatim>\<open>modern\<close>
  (the caller holding TenantManager), \<^verbatim>\<open>switch\<close> falls through both branches: it
  returns normally, leaves the cloud unchanged, makes no tag request and prints the
  banner only. Such a value is none of the choices of the argument parser, so it does
  not come out of the command line.
\<close>

theorem switch_unknown_mode_falls_through:
  assumes tm: "result (is_tenant_manager c) = Inr True"
    and gp: "result (get_project (current_project_id c) c) = Inr proj"
    and other: "networking args \<noteq> NAME_MIDONET" "networking args \<noteq> NAME_OVN"
  shows "result (switch args c) = Inr ()
    \<and> final (switch args c) = c
    \<and> printed (events (switch args c)) = [''Switching project networking'']
    \<and> filter is_mutation (api_calls (events (switch args c))) = []
    \<and> \<not> parsed (SwitchNS args)"
  by (simp add: switch_def prog_simps tm gp other final_is_tenant_manager
        final_get_project printed_append api_calls_append networking_choices_def
        printed_is_tenant_manager mutations_is_tenant_manager events_get_project)

theorem switch_unknown_mode_falls_through_witness:
  "result (switch \<lparr>networking = ''bogus''\<rparr> demo_cloud) = Inr ()
   \<and> final (switch \<lparr>networking = ''bogus''\<rparr> demo_cloud) = demo_cloud
   \<and> printed (events (switch \<lparr>networking = ''bogus''\<rparr> demo_cloud))
       = [''Switching project networking'']
   \<and> \<not> parsed (SwitchNS \<lparr>networking = ''bogus''\<rparr>)"
  using switch_unknown_mode_falls_through
          [where c = demo_cloud and args = "\<lparr>networking = ''bogus''\<rparr>"
             and proj = "\<lparr>project_id = ''p1'', project_name = ''demo'', project_tags = [''web'']\<rparr>"]
  by (simp add: demo_is_tenant_manager demo_current_project_id demo_get_project
        NAME_OVN_def NAME_MIDONET_def)

section \<open>Kinds of events that the functions produce\<close>

lemma calls_append: "calls (xs @ ys) = calls xs @ calls ys"
  by (induction xs rule: calls.induct) simp_all


lemma no_kind_calls: "\<forall>e \<in> set es. kind_of e \<noteq> KCall \<Longrightarrow> calls es = []"
  by (induction es rule: calls.induct) simp_all

lemma no_kind_printed: "\<forall>e \<in> set es. kind_of e \<noteq> KPrint \<Longrightarrow> printed es = []"
  by (induction es rule: printed.induct) simp_all

lemma no_kind_tables: "\<forall>e \<in> set es. kind_of e \<noteq> KTable \<Longrightarrow> tables es = []"
  by (induction es rule: tables.induct) simp_all

lemma no_kind_mutations:
  "\<forall>e \<in> set es. kind_of e \<noteq> KMutation \<Longrightarrow> filter is_mutation (api_calls es) = []"
  by (induction es rule: api_calls.induct) (simp_all split: if_splits)

lemma no_kind_api_calls:
  "\<forall>e \<in> set es. kind_of e \<noteq> KMutation \<and> kind_of e \<noteq> KQuery \<Longrightarrow> api_calls es = []"
  by (induction es rule: api_calls.induct) (simp_all split: if_splits)

lemma emitsD: "emits K m \<Longrightarrow> e \<in> set (events (m c)) \<Longrightarrow> kind_of e \<in> K"
  by (simp add: emits_def)

lemma emits_calls: "emits K m \<Longrightarrow> KCall \<notin> K \<Longrightarrow> calls (events (m c)) = []"
  by (rule no_kind_calls) (auto dest: emitsD)

lemma emits_printed: "emits K m \<Longrightarrow> KPrint \<notin> K \<Longrightarrow> printed (events (m c)) = []"
  by (rule no_kind_printed) (auto dest: emitsD)

lemma emits_tables: "emits K m \<Longrightarrow> KTable \<notin> K \<Longrightarrow> tables (events (m c)) = []"
  by (rule no_kind_tables) (auto dest: emitsD)

lemma emits_mutations:
  "emits K m \<Longrightarrow> KMutation \<notin> K \<Longrightarrow> filter is_mutation (api_calls (events (m c))) = []"
  by (rule no_kind_mutations) (auto dest: emitsD)

lemma emits_return: "emits K (return x)"
  and emits_raise: "emits K (raise e)"
  and emits_read: "emits K (read g)"
  by (simp_all add: emits_def prog_simps)

lemma emits_emit: "kind_of e \<in> K \<Longrightarrow> emits K (emit e)"
  by (simp add: emits_def events_emit)

lemma emits_print: "KPrint \<in> K \<Longrightarrow> emits K (print s)"
  by (simp add: emits_def events_print)

lemma emits_request: "kind_of (Api call) \<in> K \<Longrightarrow> emits K (request call h)"
  by (simp add: emits_def events_request)

lemma emits_bind: "emits K m \<Longrightarrow> (\<And>x. emits K (f x)) \<Longrightarrow> emits K (bind m f)"
  by (auto simp add: emits_def events_bind split: sum.splits)

lemma emits_catch: "emits K m \<Longrightarrow> emits K (catch h m)"
  by (simp add: emits_def events_catch)

lemma emits_if: "emits K a \<Longrightarrow> emits K b \<Longrightarrow> emits K (if p then a else b)"
  by simp

lemma emits_case_option:
  "emits K a \<Longrightarrow> (\<And>x. emits K (b x)) \<Longrightarrow> emits K (case v of None \<Rightarrow> a | Some x \<Rightarrow> b x)"
  by (cases v) simp_all

lemma emits_list_getitem: "emits K (list_getitem xs i)"
  by (simp add: list_getitem_def emits_return emits_raise)

lemma emits_dict_getitem: "emits K (dict_getitem d k)"
  by (simp add: dict_getitem_def emits_return emits_raise split: option.splits)

lemma emits_mapM: "(\<And>x. emits K (f x)) \<Longrightarrow> emits K (mapM f xs)"
  by (induction xs) (simp_all add: emits_return emits_bind)

lemma emits_queries:
  assumes "KQuery \<in> K"
  shows "emits K (get_role n)" "emits K (list_role_assignments u p r)"
    "emits K (get_project pid)" "emits K (get_network x)"
    "emits K (py_list (networks ext tag proj))" "emits K (py_list (ports dev owner))"
    "emits K (py_list routers)" "emits K (py_list ips)" "emits K (py_list servers)"
    "emits K (py_list (server_interfaces srv))"
  using assms
  by (simp_all add: get_role_def list_role_assignments_def get_project_def get_network_def
        networks_def ports_def routers_def ips_def servers_def server_interfaces_def
        emits_request)

lemma emits_tag_mutations:
  assumes "KMutation \<in> K"
  shows "emits K (add_tag p t)" "emits K (remove_tag p t)"
  using assms
  by (simp_all add: emits_def add_tag_def remove_tag_def events_def split: option.splits)

lemmas emits_intros =
  emits_bind emits_return emits_raise emits_read emits_print emits_emit emits_catch
  emits_if emits_case_option emits_list_getitem emits_dict_getitem emits_queries
  emits_tag_mutations

lemma emits_is_tenant_manager: "KQuery \<in> K \<Longrightarrow> emits K is_tenant_manager"
  unfolding is_tenant_manager_def by (intro emits_intros)

lemma emits_is_legacy_project: "KQuery \<in> K \<Longrightarrow> emits K is_legacy_project"
  unfolding is_legacy_project_def by (intro emits_intros)

lemma emits_is_legacy_network: "KQuery \<in> K \<Longrightarrow> emits K (is_legacy_network x)"
  by (cases x rule: is_legacy_network.cases) (simp_all add: emits_intros)

lemma emits_attrs:
  "emits K (attr_floating_network_id r)" "emits K (attr_port_id r)"
  "emits K (attr_external_gateway_info r)"
  by (cases r; simp add: emits_return emits_raise)+

lemma emits_PrettyFIP_get_recommendation:
  "KQuery \<in> K \<Longrightarrow> emits K (PrettyFIP_get_recommendation r)"
  unfolding PrettyFIP_get_recommendation_def
  by (intro emits_intros emits_attrs emits_is_legacy_network)

lemma emits_PrettyNetwork_get_recommendation:
  "KQuery \<in> K \<Longrightarrow> emits K (PrettyNetwork_get_recommendation r)"
  unfolding PrettyNetwork_get_recommendation_def
  by (intro emits_intros emits_is_legacy_network)

lemma emits_PrettyRouter_get_recommendation:
  "KQuery \<in> K \<Longrightarrow> emits K (PrettyRouter_get_recommendation r)"
  unfolding PrettyRouter_get_recommendation_def
  by (intro emits_intros emits_attrs emits_is_legacy_network)

lemma emits_legacy_networks_loop:
  "KQuery \<in> K \<Longrightarrow> emits K (legacy_networks_loop is acc)"
  by (induction "is" arbitrary: acc)
     (simp_all add: emits_intros emits_is_legacy_network del: is_legacy_network.simps)

lemma emits_PrettyServer_get_recommendation:
  "KQuery \<in> K \<Longrightarrow> emits K (PrettyServer_get_recommendation r)"
  unfolding PrettyServer_get_recommendation_def
  by (intro emits_intros emits_legacy_networks_loop)

lemma emits_PrettyResource_init:
  "(\<And>r. emits K (g r)) \<Longrightarrow> emits K (PrettyResource_init g obj)"
  by (cases obj) (simp_all add: PrettyResource_init_def emits_intros)

lemma emits_constructor:
  assumes "KQuery \<in> K"
    and "cls \<in> {''PrettyFIP'', ''PrettyNetwork'', ''PrettyRouter'', ''PrettyServer''}"
  shows "emits K (bind (dict_getitem globals cls) (\<lambda>constructor. constructor ob))"
proof -
  have "emits K (PrettyFIP ob)" "emits K (PrettyNetwork ob)" "emits K (PrettyRouter ob)"
    "emits K (PrettyServer ob)"
    using assms(1)
    by (simp_all add: PrettyFIP_def PrettyNetwork_def PrettyRouter_def PrettyServer_def
          emits_PrettyResource_init emits_PrettyFIP_get_recommendation
          emits_PrettyNetwork_get_recommendation emits_PrettyRouter_get_recommendation
          emits_PrettyServer_get_recommendation)
  with assms(2) show ?thesis
    by (auto simp add: emits_def globals_def dict_getitem_def events_bind result_return
          final_return events_return)
qed

lemma emits_resource_to_prettyresource:
  assumes "KQuery \<in> K"
  shows "emits K (resource_to_prettyresource obj)"
proof (cases obj)
  case (Value v)
  then show ?thesis by (simp add: resource_to_prettyresource_def emits_raise)
next
  case (Resource r)
  then show ?thesis
    by (cases r)
       (simp_all add: resource_to_prettyresource_def query_map_def emits_raise
          emits_constructor [OF assms])
qed

lemma emits_resources_to_prettyrows:
  assumes "KQuery \<in> K" and "emits K (py_list g)"
  shows "emits K (resources_to_prettyrows g a)"
  unfolding resources_to_prettyrows_def
  by (intro emits_bind emits_return emits_mapM emits_resource_to_prettyresource assms)

lemma emits_check_summary: "KQuery \<in> K \<Longrightarrow> emits K (check_summary n k)"
  unfolding check_summary_def by (intro emits_intros emits_is_legacy_project)

text \<open>What the gate and the two operations do after they are entered.\<close>

lemma calls_bind_emit_Call:
  "emits K (f ()) \<Longrightarrow> KCall \<notin> K \<Longrightarrow> calls (events (bind (emit (Call n)) f c)) = [n]"
  by (simp add: events_bind result_emit events_emit final_emit emits_calls)

lemma emits_check: "emits {KCall, KQuery, KPrint, KTable} (check a)"
  unfolding check_def
  by (intro emits_intros emits_is_legacy_project emits_resources_to_prettyrows
        emits_check_summary) simp_all

lemma emits_switch: "emits {KCall, KQuery, KMutation, KPrint} (switch a)"
  unfolding switch_def
  by (intro emits_intros emits_is_legacy_project emits_is_tenant_manager) simp_all

lemma emits_check_sanity: "emits {KCall, KQuery, KPrint} check_sanity"
  unfolding check_sanity_def
  by (intro emits_intros emits_is_legacy_project emits_is_tenant_manager
        emits_is_legacy_network) simp_all

lemma calls_check: "calls (events (check a c)) = [''check'']"
  unfolding check_def
  by (rule calls_bind_emit_Call [where K = "{KQuery, KPrint, KTable}"])
     ((intro emits_intros emits_is_legacy_project emits_resources_to_prettyrows
        emits_check_summary)?, simp_all)

lemma calls_switch: "calls (events (switch a c)) = [''switch'']"
  unfolding switch_def
  by (rule calls_bind_emit_Call [where K = "{KQuery, KMutation, KPrint}"])
     ((intro emits_intros emits_is_legacy_project emits_is_tenant_manager)?, simp_all)

lemma calls_check_sanity: "calls (events (check_sanity c)) = [''check_sanity'']"
  unfolding check_sanity_def
  by (rule calls_bind_emit_Call [where K = "{KQuery, KPrint}"])
     ((intro emits_intros emits_is_legacy_project emits_is_tenant_manager
        emits_is_legacy_network)?, simp_all)

section \<open>The sanity gate of the dispatcher\<close>

lemma final_list_getitem: "final (list_getitem xs i c) = c"
  by (simp add: list_getitem_def final_return final_raise)

lemma final_check_sanity: "final (check_sanity c) = c"
  by (simp add: check_sanity_def final_bind final_emit final_print final_return
        final_is_tenant_manager final_py_list final_is_legacy_network final_is_legacy_project
        final_list_getitem
        split: sum.splits del: is_legacy_network.simps)

lemma check_sanity_not_tenant_manager:
  assumes "result (is_tenant_manager c) = Inr False"
  shows "result (check_sanity c) = Inr False"
    and "events (check_sanity c)
          = Call ''check_sanity'' # events (is_tenant_manager c)
            @ [Print (''You do not have sufficient privileges to migrate the project. ''
                      @ ''You need the 'TenantManager' role on this project'')]"
  using assms
  by (simp_all add: check_sanity_def prog_simps final_is_tenant_manager)

lemma printed_check_sanity_False:
  assumes "result (check_sanity c) = Inr False"
  shows "printed (events (check_sanity c))
           = [''You do not have sufficient privileges to migrate the project. ''
              @ ''You need the 'TenantManager' role on this project'']
       \<or> printed (events (check_sanity c))
           = [''Project networking may have been recently switched. ''
              @ ''Please wait for 2 minutes and try again.'']"
proof -
  have q: "printed (events (is_tenant_manager c')) = []"
    "printed (events (py_list (networks a b d) c')) = []"
    "printed (events (is_legacy_network x c')) = []"
    "printed (events (is_legacy_project c')) = []"
    "printed (events (list_getitem xs i c')) = []" for c' a b d x xs i
    by (rule emits_printed [where K = "{KQuery}"];
        simp add: emits_is_tenant_manager emits_queries emits_is_legacy_network
          emits_is_legacy_project emits_list_getitem)+
  from assms show ?thesis
    by (auto simp add: check_sanity_def result_bind final_bind events_bind result_emit final_emit
          events_emit result_print final_print events_print result_return events_return
          final_return printed_append q CACHE_TIMEOUT_def final_is_tenant_manager final_py_list
          final_is_legacy_network final_is_legacy_project final_list_getitem
          split: sum.splits if_splits simp del: is_legacy_network.simps)
qed

lemma events_main:
  "events (main args c) =
     (case result (check_sanity c) of
        Inl e \<Rightarrow> events (check_sanity c)
      | Inr sane \<Rightarrow>
          events (check_sanity c) @ (if sane then events (command args c) else []))"
  by (simp add: main_def events_bind final_check_sanity events_return split: sum.splits)

lemma main_gate_closed:
  assumes "result (check_sanity c) = Inr False"
  shows "result (main args c) = Inr ()" "final (main args c) = c"
    "events (main args c) = events (check_sanity c)"
  using assms
  by (simp_all add: main_def result_bind final_bind events_bind final_check_sanity
        result_return final_return events_return)

lemma demo_check_sanity:
  "result (check_sanity demo_cloud) = Inr True"
  "result (check_sanity demo_cloud_no_role) = Inr False"
  by code_simp+


text \<open>
  C1. In every run of \<^verbatim>\<open>main\<close>, \<^verbatim>\<open>check_sanity\<close> is entered exactly once, before
  anything else, and an operation is entered after it (once, the one the arguments
  name) only when it returned true. When \<^verbatim>\<open>check_sanity\<close> returns false, the run
  ends normally with the cloud unchanged, no more events than those of
  \<^verbatim>\<open>check_sanity\<close>, no table, no tag request, and one printed line, which is one of
  the two sanity messages. When \<^verbatim>\<open>is_tenant_manager\<close> returns false, the requests
  of the whole run are those of \<^verbatim>\<open>is_tenant_manager\<close> and no more.
\<close>

theorem main_runs_check_sanity_once:
  "calls (events (main args c))
     = ''check_sanity'' #
       (if result (check_sanity c) = Inr True
        then [case args of CheckNS _ \<Rightarrow> ''check'' | SwitchNS _ \<Rightarrow> ''switch'']
        else [])
   \<and> (result (check_sanity c) = Inr False \<longrightarrow>
        result (main args c) = Inr ()
        \<and> final (main args c) = c
        \<and> events (main args c) = events (check_sanity c)
        \<and> tables (events (main args c)) = []
        \<and> filter is_mutation (api_calls (events (main args c))) = []
        \<and> (printed (events (main args c))
              = [''You do not have sufficient privileges to migrate the project. ''
                 @ ''You need the 'TenantManager' role on this project'']
           \<or> printed (events (main args c))
              = [''Project networking may have been recently switched. ''
                 @ ''Please wait for 2 minutes and try again.'']))
   \<and> (result (is_tenant_manager c) = Inr False \<longrightarrow>
        result (check_sanity c) = Inr False
        \<and> final (main args c) = c
        \<and> api_calls (events (main args c)) = api_calls (events (is_tenant_manager c))
        \<and> filter is_mutation (api_calls (events (main args c))) = []
        \<and> printed (events (main args c))
              = [''You do not have sufficient privileges to migrate the project. ''
                 @ ''You need the 'TenantManager' role on this project''])"
proof (intro conjI impI)
  show "calls (events (main args c))
     = ''check_sanity'' #
       (if result (check_sanity c) = Inr True
        then [case args of CheckNS _ \<Rightarrow> ''check'' | SwitchNS _ \<Rightarrow> ''switch'']
        else [])"
    by (cases args)
       (auto simp add: events_main calls_append calls_check_sanity calls_check calls_switch
          split: sum.splits)
next
  assume f: "result (check_sanity c) = Inr False"
  show "result (main args c) = Inr ()" "final (main args c) = c"
    "events (main args c) = events (check_sanity c)"
    using main_gate_closed [OF f] by simp_all
  show "tables (events (main args c)) = []"
    by (simp add: main_gate_closed [OF f] emits_tables [OF emits_check_sanity])
  show "filter is_mutation (api_calls (events (main args c))) = []"
    by (simp add: main_gate_closed [OF f] emits_mutations [OF emits_check_sanity])
  show "printed (events (main args c))
              = [''You do not have sufficient privileges to migrate the project. ''
                 @ ''You need the 'TenantManager' role on this project'']
           \<or> printed (events (main args c))
              = [''Project networking may have been recently switched. ''
                 @ ''Please wait for 2 minutes and try again.'']"
    using printed_check_sanity_False [OF f] by (simp add: main_gate_closed [OF f])
next
  assume tm: "result (is_tenant_manager c) = Inr False"
  note cs = check_sanity_not_tenant_manager [OF tm]
  note mg = main_gate_closed [OF cs(1)]
  show "result (check_sanity c) = Inr False" by (rule cs)
  show "final (main args c) = c" by (rule mg)
  show "api_calls (events (main args c)) = api_calls (events (is_tenant_manager c))"
    by (simp add: mg cs api_calls_append)
  show "filter is_mutation (api_calls (events (main args c))) = []"
    by (simp add: mg emits_mutations [OF emits_check_sanity])
  show "printed (events (main args c))
              = [''You do not have sufficient privileges to migrate the project. ''
                 @ ''You need the 'TenantManager' role on this project'']"
    by (simp add: mg cs printed_append printed_is_tenant_manager)
qed

theorem main_runs_check_sanity_once_witness:
  "result (is_tenant_manager demo_cloud_no_role) = Inr False
   \<and> result (check_sanity demo_cloud_no_role) = Inr False
   \<and> calls (events (main (SwitchNS \<lparr>networking = ''legacy''\<rparr>) demo_cloud_no_role))
       = [''check_sanity'']
   \<and> result (main (SwitchNS \<lparr>networking = ''legacy''\<rparr>) demo_cloud_no_role) = Inr ()
   \<and> final (main (SwitchNS \<lparr>networking = ''legacy''\<rparr>) demo_cloud_no_role) = demo_cloud_no_role
   \<and> api_calls (events (main (SwitchNS \<lparr>networking = ''legacy''\<rparr>) demo_cloud_no_role))
       = api_calls (events (is_tenant_manager demo_cloud_no_role))
   \<and> calls (events (main (CheckNS \<lparr>all_resources = False\<rparr>) demo_cloud))
       = [''check_sanity'', ''check'']"
proof -
  have tm: "result (is_tenant_manager demo_cloud_no_role) = Inr False"
    by (rule demo_is_tenant_manager)
  have cs: "result (check_sanity demo_cloud_no_role) = Inr False"
    by (rule demo_check_sanity)
  have ok: "result (check_sanity demo_cloud) = Inr True"
    by (rule demo_check_sanity)
  note closed = main_runs_check_sanity_once
          [where c = demo_cloud_no_role and args = "SwitchNS \<lparr>networking = ''legacy''\<rparr>"]
  note passed = main_runs_check_sanity_once
          [where c = demo_cloud and args = "CheckNS \<lparr>all_resources = False\<rparr>"]
  have c1: "calls (events (main (SwitchNS \<lparr>networking = ''legacy''\<rparr>) demo_cloud_no_role))
       = [''check_sanity'']"
    using closed [THEN conjunct1] by (simp add: cs)
  note gate = closed [THEN conjunct2, THEN conjunct1, THEN mp, OF cs]
  note role = closed [THEN conjunct2, THEN conjunct2, THEN mp, OF tm]
  have c2: "result (main (SwitchNS \<lparr>networking = ''legacy''\<rparr>) demo_cloud_no_role) = Inr ()"
    by (rule gate [THEN conjunct1])
  have c3: "final (main (SwitchNS \<lparr>networking = ''legacy''\<rparr>) demo_cloud_no_role)
              = demo_cloud_no_role"
    by (rule gate [THEN conjunct2, THEN conjunct1])
  have c4: "api_calls (events (main (SwitchNS \<lparr>networking = ''legacy''\<rparr>) demo_cloud_no_role))
       = api_calls (events (is_tenant_manager demo_cloud_no_role))"
    by (rule role [THEN conjunct2, THEN conjunct2, THEN conjunct1])
  have c5: "calls (events (main (CheckNS \<lparr>all_resources = False\<rparr>) demo_cloud))
       = [''check_sanity'', ''check'']"
    using passed [THEN conjunct1] by (simp add: ok)
  show ?thesis
    by (intro conjI) (rule tm cs c1 c2 c3 c4 c5)+
qed

section \<open>The check operation and the gate\<close>












end
